theory Spec2Isabelle
  imports Complex_Main
begin


section \<open>Python strings\<close>

text \<open>
  A Python \<open>str\<close> is modelled as a \<^typ>\<open>string\<close>, a list of characters; a character is a
  Unicode code point from 0 to 255. On these code points the character classes and the case
  mapping are those of Python: \<open>str.isspace\<close> (which \<open>strip\<close>, \<open>split()\<close> and the \<open>\s\<close> of
  \<open>re\<close> use) holds for 9 to 13, 28 to 32, 0x85 and 0xA0; \<open>str.isdigit\<close> for the ten digits and
  the superscripts 0xB2, 0xB3 and 0xB9; \<open>str.isupper\<close> for A to Z, 0xC0 to 0xD6 and 0xD8 to
  0xDE; \<open>str.islower\<close> for a to z, 0xAA, 0xB5, 0xBA, 0xDF to 0xF6 and 0xF8 to 0xFF;
  \<open>str.isalpha\<close> for the upper and the lower case characters; \<open>str.lower\<close> adds 32 to an
  upper case character. Texts with code points above 255 are not modelled.

  Python floats are modelled as rationals: every literal of the source (0.95, 0.3, ...) is the
  decimal fraction it denotes, and arithmetic is exact.
\<close>

definition py_isspace :: "char \<Rightarrow> bool" where
  "py_isspace c =
     (let n = (of_char c :: nat)
      in (9 \<le> n \<and> n \<le> 13) \<or> (28 \<le> n \<and> n \<le> 32) \<or> n = 0x85 \<or> n = 0xA0)"

definition py_isdigit :: "char \<Rightarrow> bool" where
  "py_isdigit c =
     (let n = (of_char c :: nat)
      in (48 \<le> n \<and> n \<le> 57) \<or> n = 0xB2 \<or> n = 0xB3 \<or> n = 0xB9)"

definition py_isupper :: "char \<Rightarrow> bool" where
  "py_isupper c =
     (let n = (of_char c :: nat)
      in (65 \<le> n \<and> n \<le> 90) \<or> (0xC0 \<le> n \<and> n \<le> 0xD6) \<or> (0xD8 \<le> n \<and> n \<le> 0xDE))"

definition py_islower :: "char \<Rightarrow> bool" where
  "py_islower c =
     (let n = (of_char c :: nat)
      in (97 \<le> n \<and> n \<le> 122) \<or> n = 0xAA \<or> n = 0xB5 \<or> n = 0xBA \<or>
         (0xDF \<le> n \<and> n \<le> 0xF6) \<or> (0xF8 \<le> n \<and> n \<le> 0xFF))"

definition py_isalpha :: "char \<Rightarrow> bool" where
  "py_isalpha c = (py_isupper c \<or> py_islower c)"

definition lower_char :: "char \<Rightarrow> char" where
  "lower_char c = (if py_isupper c then char_of ((of_char c :: nat) + 32) else c)"

definition py_lower :: "string \<Rightarrow> string" where
  "py_lower s = map lower_char s"

definition py_lstrip :: "string \<Rightarrow> string" where
  "py_lstrip s = dropWhile py_isspace s"

definition py_strip :: "string \<Rightarrow> string" where
  "py_strip s = rev (dropWhile py_isspace (rev (dropWhile py_isspace s)))"

text \<open>\<open>s.startswith(p)\<close>, \<open>s.endswith(p)\<close> and \<open>p in s\<close>.\<close>

fun startswith :: "string \<Rightarrow> string \<Rightarrow> bool" where
  "startswith s [] = True"
| "startswith [] (p # ps) = False"
| "startswith (c # cs) (p # ps) = (c = p \<and> startswith cs ps)"

definition endswith :: "string \<Rightarrow> string \<Rightarrow> bool" where
  "endswith s p = startswith (rev s) (rev p)"

fun contains :: "string \<Rightarrow> string \<Rightarrow> bool" where
  "contains [] p = (p = [])"
| "contains (c # cs) p = (startswith (c # cs) p \<or> contains cs p)"

text \<open>
  \<open>s.replace(old, new)\<close> for a non-empty \<open>old\<close> (the source only replaces \<open>'.exe'\<close> and the
  newline): the occurrences are replaced from the left, without overlap.
\<close>

fun py_replace :: "string \<Rightarrow> string \<Rightarrow> string \<Rightarrow> string" where
  "py_replace old new [] = []"
| "py_replace old new (c # cs) =
     (if startswith (c # cs) old then new @ py_replace old new (drop (length old - 1) cs)
      else c # py_replace old new cs)"

text \<open>\<open>s.split(sep)\<close> for a separator of one character: never the empty list.\<close>

fun split_on :: "char \<Rightarrow> string \<Rightarrow> string list" where
  "split_on sep [] = [[]]"
| "split_on sep (c # cs) =
     (if c = sep then [] # split_on sep cs
      else (case split_on sep cs of [] \<Rightarrow> [[c]] | p # ps \<Rightarrow> (c # p) # ps))"

text \<open>\<open>s.split()\<close>: the maximal runs of non-whitespace characters.\<close>

fun split_ws_aux :: "string \<Rightarrow> string \<Rightarrow> string list" where
  "split_ws_aux w [] = (if w = [] then [] else [rev w])"
| "split_ws_aux w (c # cs) =
     (if py_isspace c then (if w = [] then split_ws_aux [] cs else rev w # split_ws_aux [] cs)
      else split_ws_aux (c # w) cs)"

definition py_split :: "string \<Rightarrow> string list" where
  "py_split s = split_ws_aux [] s"

text \<open>\<open>sum(1 for p in patterns if p in s)\<close>.\<close>

definition count_in :: "string list \<Rightarrow> string \<Rightarrow> nat" where
  "count_in patterns s = length (filter (contains s) patterns)"

abbreviation backslash :: char where "backslash \<equiv> CHR 0x5C"
abbreviation newline :: char where "newline \<equiv> CHR 0x0A"
abbreviation tab :: char where "tab \<equiv> CHR 0x09"

text \<open>The exceptions a list index of the source can raise.\<close>

datatype py_error = IndexError

text \<open>\<open>xs[i]\<close> for \<open>i \<ge> 0\<close>, and \<open>xs[-1]\<close>.\<close>

definition py_index :: "'a list \<Rightarrow> nat \<Rightarrow> py_error + 'a" where
  "py_index xs i = (if i < length xs then Inr (xs ! i) else Inl IndexError)"

definition py_last :: "'a list \<Rightarrow> py_error + 'a" where
  "py_last xs = (case rev xs of [] \<Rightarrow> Inl IndexError | x # _ \<Rightarrow> Inr x)"

section \<open>ContentClassifier (rule.py)\<close>

definition code_patterns_high :: "string list" where
  "code_patterns_high = [''def '', ''function '', ''class '', ''import '', ''from '', ''#include'',
     ''public class'', ''SELECT '', ''FROM '', ''CREATE TABLE'', ''INSERT INTO'']"

definition code_patterns_medium :: "string list" where
  "code_patterns_medium = [''private '', ''public '', ''var '', ''let '', ''const '', ''=>'',
     ''function('', ''if ('', ''for ('', ''while ('', ''catch ('', ''try {'']"

definition code_patterns_low :: "string list" where
  "code_patterns_low = [''{'', ''}'', ''=='', ''!='', ''&&'', ''||'', ''++'', ''--'']"

definition file_extensions :: "string list" where
  "file_extensions = [''.txt'', ''.py'', ''.js'', ''.html'', ''.css'', ''.json'', ''.xml'', ''.md'',
     ''.csv'', ''.xlsx'', ''.pdf'', ''.doc'', ''.ppt'', ''.zip'', ''.rar'']"

definition url_indicators :: "string list" where
  "url_indicators = [''http://'', ''https://'', ''www.'', ''ftp://'']"

definition domain_tlds :: "string list" where
  "domain_tlds = [''.com'', ''.org'', ''.net'', ''.edu'', ''.gov'', ''.io'', ''.co'', ''.ai'', ''.dev'']"

definition email_patterns :: "string list" where
  "email_patterns = [''dear '', ''hello '', ''hi '', ''greetings'',
     ''sincerely'', ''best regards'', ''kind regards'', ''yours truly'',
     ''subject:'', ''to:'', ''from:'', ''cc:'', ''bcc:'',
     ''[recipient'', ''dear sir'', ''dear madam'']"

definition data_indicators :: "string list" where
  "data_indicators = [[tab], '','', ''|'', '';'']"

text \<open>
  Lines 49 to 54 of \<open>classify_content\<close>: the e-mail address detector. \<open>Inr None\<close> means that the
  detector did not fire and the cascade goes on; \<open>Inl\<close> is an exception of \<open>parts[1]\<close> or
  \<open>domain_parts[-1]\<close>.
\<close>

definition email_address :: "string \<Rightarrow> py_error + (string \<times> rat) option" where
  "email_address content =
     (if contains content ''@'' \<and> contains content ''.'' then
        (let parts = split_on CHR ''@'' content in
         if length parts = 2 then
           (case py_index parts 1 of
              Inl e \<Rightarrow> Inl e
            | Inr p1 \<Rightarrow>
                if contains p1 ''.'' \<and> length (split_on CHR ''.'' p1) \<ge> 2 then
                  (let domain_parts = split_on CHR ''.'' p1 in
                   case py_last domain_parts of
                     Inl e \<Rightarrow> Inl e
                   | Inr l \<Rightarrow> Inr (Some (''EMAIL'', if length l \<ge> 2 then 0.9 else 0.7)))
                else Inr None)
         else Inr None)
      else Inr None)"

text \<open>Lines 84 to 92: the weighted count of the code patterns.\<close>

definition code_score :: "string \<Rightarrow> rat" where
  "code_score content_lower =
     0 + of_nat (count_in code_patterns_high content_lower) * 0.4
       + of_nat (count_in code_patterns_medium content_lower) * 0.25
       + of_nat (count_in code_patterns_low content_lower) * 0.1"

text \<open>Line 103: \<open>sum(1 for line in lines[:5] for sep in data_indicators if sep in line)\<close>.\<close>

definition separator_count :: "string list \<Rightarrow> nat" where
  "separator_count lines =
     length (concat (map (\<lambda>line. filter (\<lambda>sep. contains line sep) data_indicators) (take 5 lines)))"

definition classify_content :: "string \<Rightarrow> py_error + (string \<times> rat)" where
  "classify_content content =
     (let content_lower = py_strip (py_lower content) in
      if list_ex (startswith content_lower) url_indicators then
        Inr (''WEB'', if startswith content_lower ''http://'' \<or> startswith content_lower ''https://''
                      then 0.95 else 0.85)
      else if contains content ''.'' \<and> \<not> contains (py_strip content) '' '' \<and>
              list_ex (endswith content_lower) domain_tlds \<and>
              length (split_on CHR ''.'' content) \<ge> 2 then
        Inr (''WEB'', 0.85)
      else
        (case email_address content of
           Inl e \<Rightarrow> Inl e
         | Inr (Some r) \<Rightarrow> Inr r
         | Inr None \<Rightarrow>
            (let content_words = py_replace [newline] '' '' content_lower;
                 email_indicators = count_in email_patterns content_words in
             if email_indicators \<ge> 2 \<or>
                (email_indicators \<ge> 1 \<and> length (split_on newline content) > 2) then
               Inr (''EMAIL'', min 0.9 (0.6 + of_nat email_indicators * 0.1))
             else if (contains content [backslash, backslash] \<or> contains content ''/'') \<and>
                     length (py_split content) = 1 then
               Inr (''FILE'', if list_ex (endswith content_lower) file_extensions then 0.9 else 0.7)
             else if length content < 50 \<and> \<not> contains content '' '' \<and>
                     list_ex py_isdigit content \<and> list_ex py_isalpha content then
               (let has_special = list_ex (\<lambda>c. c \<in> set ''!@#$%^&*()_+-='') content;
                    mixed_case = (list_ex py_isupper content \<and> list_ex py_islower content) in
                Inr (''PASSWORD'', if has_special \<and> mixed_case then 0.8 else 0.6))
             else if code_score content_lower \<ge> 0.3 then
               Inr (''CODE'', min 0.95 (0.5 + code_score content_lower))
             else
               (let lines = split_on newline content in
                if length lines > 3 \<and> separator_count lines \<ge> 3 then
                  Inr (''DATA'', if contains content [tab] \<or> contains content '','' then 0.8 else 0.6)
                else
                  (let numbers = length (filter py_isdigit content) in
                   if of_nat numbers > of_nat (length content) * (0.3 :: rat) \<and> length content > 10 then
                     Inr (''DATA'', 0.7)
                   else Inr (''TEXT'', if length content > 20 then 0.9 else 0.6))))))"

section \<open>WindowInfo (windows.py) and suggestions\<close>

record WindowInfo =
  hwnd :: int
  title :: string
  process_name :: string
  pid :: int
  is_visible :: bool
  is_minimized :: bool

text \<open>
  The third component of a suggestion is a label that the source renders from a float with
  \<open>:.2f\<close>. The label is kept as a value that carries the number: \<open>PriorityConf p c\<close> stands for
  \<open>f"{p} ({c:.2f})"\<close>, \<open>RecentConf\<close> for \<open>"Recent"\<close> and \<open>ScoreConf s\<close> for \<open>f"Score: {s:.2f}"\<close>.
\<close>

datatype confidence_text = PriorityConf string rat | RecentConf | ScoreConf rat

type_synonym suggestion = "string \<times> WindowInfo \<times> confidence_text"

definition suggestion_window :: "suggestion \<Rightarrow> WindowInfo" where
  "suggestion_window sg = fst (snd sg)"

text \<open>
  \<open>xs.sort(key=lambda x: x[1], reverse=True)\<close>: Python's sort is stable, also with
  \<open>reverse=True\<close>, so it is the stable sort by the negated key.
\<close>

definition sort_by_score_desc :: "('a \<times> rat) list \<Rightarrow> ('a \<times> rat) list" where
  "sort_by_score_desc xs = sort_key (\<lambda>x. - snd x) xs"

section \<open>RuleBasedSuggestionEngine (rule.py)\<close>

record affinity =
  high_priority :: "string list"
  medium_priority :: "string list"
  title_keywords :: "string list"

definition content_mappings :: "(string \<times> affinity) list" where
  "content_mappings =
    [(''CODE'', \<lparr>high_priority = [''code'', ''pycharm'', ''idea'', ''sublime'', ''atom'', ''vim''],
                medium_priority = [''notepad++'', ''notepad'', ''wordpad''],
                title_keywords = [''editor'', ''ide'', ''development'']\<rparr>),
     (''WEB'', \<lparr>high_priority = [''chrome'', ''firefox'', ''edge'', ''safari'', ''opera'', ''brave''],
               medium_priority = [''iexplore''],
               title_keywords = [''browser'', ''web'']\<rparr>),
     (''EMAIL'', \<lparr>high_priority = [''outlook'', ''thunderbird'', ''mailspring''],
                 medium_priority = [''chrome'', ''firefox'', ''edge''],
                 title_keywords = [''mail'', ''email'']\<rparr>),
     (''FILE_PATH'', \<lparr>high_priority = [''explorer'', ''nautilus'', ''finder''],
                     medium_priority = [''cmd'', ''powershell'', ''terminal''],
                     title_keywords = [''file'', ''folder'', ''directory'']\<rparr>),
     (''PASSWORD'', \<lparr>high_priority = [''chrome'', ''firefox'', ''edge'', ''1password'', ''bitwarden''],
                    medium_priority = [''notepad'', ''keepass''],
                    title_keywords = [''password'', ''login'', ''auth'']\<rparr>),
     (''DATA'', \<lparr>high_priority = [''excel'', ''calc'', ''tableau'', ''powerbi''],
                medium_priority = [''notepad'', ''word'', ''chrome''],
                title_keywords = [''data'', ''spreadsheet'', ''csv'', ''table'']\<rparr>),
     (''TEXT'', \<lparr>high_priority = [''notepad'', ''wordpad'', ''word'', ''writer''],
                medium_priority = [''chrome'', ''firefox'', ''edge''],
                title_keywords = [''text'', ''document'', ''note'']\<rparr>)]"

text \<open>
  \<open>re.search(r'(?:https?://)?(?:www\.)?([^/\s]+)', s)\<close> and its group 1. Both optional groups
  are greedy: the matcher first tries them present and gives them up only when the rest fails.
\<close>

definition domain_group :: "string \<Rightarrow> string" where
  "domain_group s = takeWhile (\<lambda>c. c \<noteq> CHR ''/'' \<and> \<not> py_isspace c) s"

definition strip_scheme :: "string \<Rightarrow> string option" where
  "strip_scheme s =
     (if startswith s ''https://'' then Some (drop 8 s)
      else if startswith s ''http://'' then Some (drop 7 s)
      else None)"

definition match_www_group :: "string \<Rightarrow> string option" where
  "match_www_group r =
     (if startswith r ''www.'' \<and> domain_group (drop 4 r) \<noteq> [] then Some (domain_group (drop 4 r))
      else if domain_group r \<noteq> [] then Some (domain_group r)
      else None)"

definition match_domain_at :: "string \<Rightarrow> string option" where
  "match_domain_at s =
     (case strip_scheme s of
        None \<Rightarrow> match_www_group s
      | Some r \<Rightarrow> (case match_www_group r of Some d \<Rightarrow> Some d | None \<Rightarrow> match_www_group s))"

fun search_domain :: "string \<Rightarrow> string option" where
  "search_domain [] = None"
| "search_domain (c # cs) =
     (case match_domain_at (c # cs) of Some d \<Rightarrow> Some d | None \<Rightarrow> search_domain cs)"

definition get_content_specific_score :: "WindowInfo \<Rightarrow> string \<Rightarrow> rat" where
  "get_content_specific_score window content =
     (let title_lower = py_lower (title window);
          content_lower = py_lower content;
          url_hit = ((startswith content_lower ''http'' \<or> startswith content_lower ''www'') \<and>
                     (case search_domain content_lower of
                        None \<Rightarrow> False
                      | Some domain \<Rightarrow> contains title_lower domain)) in
      if url_hit then 0.3
      else if (contains content [backslash, backslash] \<or> contains content ''/'') \<and>
              list_ex (contains title_lower) [''file'', ''folder'', ''explorer''] then 0.2
      else if list_ex (contains content_lower) [''def '', ''function'', ''class ''] \<and>
              list_ex (contains title_lower) [''code'', ''editor'', ''ide''] then 0.2
      else 0.0)"

definition calculate_window_score :: "WindowInfo \<Rightarrow> affinity \<Rightarrow> string \<Rightarrow> rat" where
  "calculate_window_score window mapping content =
     (let process_lower = py_replace ''.exe'' [] (py_lower (process_name window));
          title_lower = py_lower (title window);
          base = (if list_ex (contains process_lower) (high_priority mapping) then 0.0 + 0.8
                  else if list_ex (contains process_lower) (medium_priority mapping) then 0.0 + 0.5
                  else 0.0);
          keyword_matches = count_in (title_keywords mapping) title_lower;
          score = base + of_nat keyword_matches * 0.2 + get_content_specific_score window content
      in min 1.0 score)"

text \<open>Lines 197 to 205 of \<open>_get_suggestions_for_type\<close>: the scored and sorted windows.\<close>

definition scored_windows :: "affinity \<Rightarrow> string \<Rightarrow> WindowInfo list \<Rightarrow> (WindowInfo \<times> rat) list" where
  "scored_windows mapping content windows =
     sort_by_score_desc
       (filter (\<lambda>ws. snd ws > 0)
          (map (\<lambda>window. (window, calculate_window_score window mapping content)) windows))"

definition priority_of :: "rat \<Rightarrow> string" where
  "priority_of score = (if score \<ge> 0.8 then ''High'' else if score \<ge> 0.5 then ''Medium'' else ''Low'')"

definition get_suggestions_for_type ::
    "string \<Rightarrow> rat \<Rightarrow> string \<Rightarrow> WindowInfo list \<Rightarrow> suggestion list" where
  "get_suggestions_for_type content_type confidence content windows =
     (case map_of content_mappings content_type of
        None \<Rightarrow> []
      | Some mapping \<Rightarrow>
          map (\<lambda>(window, score).
                 (content_type @ '' -> '' @ process_name window, window,
                  PriorityConf (priority_of score) confidence))
              (take 3 (scored_windows mapping content windows)))"

definition get_recent_windows :: "WindowInfo list \<Rightarrow> suggestion list \<Rightarrow> suggestion list" where
  "get_recent_windows windows exclude =
     (let excluded_hwnds = map (\<lambda>sg. hwnd (suggestion_window sg)) exclude in
      map (\<lambda>window. (''Recent -> '' @ process_name window, window, RecentConf))
          (filter (\<lambda>window. hwnd window \<notin> set excluded_hwnds \<and> \<not> is_minimized window)
             windows))"

text \<open>
  \<open>RuleBasedSuggestionEngine.get_suggestions\<close>. \<open>Inr None\<close> is the returned \<open>None\<close>; \<open>Inl\<close> is an
  exception of the classifier, which the function does not catch.
\<close>

definition rule_get_suggestions ::
    "string \<Rightarrow> WindowInfo option \<Rightarrow> WindowInfo list \<Rightarrow> py_error + suggestion list option" where
  "rule_get_suggestions clipboard_content current_window available_windows =
     (if available_windows = [] then Inr None
      else
        (case classify_content clipboard_content of
           Inl e \<Rightarrow> Inl e
         | Inr (content_type, confidence) \<Rightarrow>
            (let primary = get_suggestions_for_type content_type confidence
                             clipboard_content available_windows;
                 suggestions =
                   (if length primary < 3 then
                      primary @ take (3 - length primary)
                                  (get_recent_windows available_windows primary)
                    else primary)
             in Inr (if suggestions \<noteq> [] then Some (take 3 suggestions) else None))))"

text \<open>
  The primary suggestions of \<open>get_suggestions\<close>: what \<open>_get_suggestions_for_type\<close> returns for
  the classification of the content.
\<close>

definition primary_suggestions :: "string \<Rightarrow> WindowInfo list \<Rightarrow> suggestion list" where
  "primary_suggestions clipboard_content available_windows =
     (case classify_content clipboard_content of
        Inl e \<Rightarrow> []
      | Inr (content_type, confidence) \<Rightarrow>
          get_suggestions_for_type content_type confidence clipboard_content available_windows)"

section \<open>Specified categories\<close>

text \<open>The closed set of category tags of the specification (section 3).\<close>

definition categories :: "string list" where
  "categories = [''CODE'', ''WEB'', ''EMAIL'', ''FILE'', ''PASSWORD'', ''DATA'', ''TEXT'']"

text \<open>A classification result that is a category of the closed set with a confidence in [0,1].\<close>

definition classified :: "py_error + (string \<times> rat) \<Rightarrow> bool" where
  "classified r = (case r of Inl e \<Rightarrow> False
     | Inr (cat, conf) \<Rightarrow> cat \<in> set categories \<and> 0 \<le> conf \<and> conf \<le> 1)"

section \<open>Sample windows\<close>

definition chrome_window :: WindowInfo where
  "chrome_window = \<lparr>hwnd = 1, title = ''GitHub - foo'', process_name = ''chrome.exe'', pid = 10,
     is_visible = True, is_minimized = False\<rparr>"

definition notepad_window :: WindowInfo where
  "notepad_window = \<lparr>hwnd = 2, title = ''Untitled'', process_name = ''notepad.exe'', pid = 11,
     is_visible = True, is_minimized = False\<rparr>"

definition cmd_window :: WindowInfo where
  "cmd_window = \<lparr>hwnd = 3, title = ''Command Prompt'', process_name = ''cmd.exe'', pid = 12,
     is_visible = True, is_minimized = False\<rparr>"

definition minimized_notepad_window :: WindowInfo where
  "minimized_notepad_window = \<lparr>hwnd = 5, title = ''Untitled'', process_name = ''notepad.exe'',
     pid = 14, is_visible = True, is_minimized = True\<rparr>"

definition minimized_window :: WindowInfo where
  "minimized_window = \<lparr>hwnd = 4, title = ''Untitled'', process_name = ''vlc.exe'', pid = 13,
     is_visible = True, is_minimized = True\<rparr>"

section \<open>Regular expressions of the source\<close>

text \<open>
  \<open>re.sub\<close> and \<open>re.findall\<close> scan the text from the left. A pattern is given by its matcher,
  which yields the length of the match that starts at the head of a text, if there is one.
  The counter says how many characters of the current match are still to be skipped. No
  pattern of the source matches the empty string.
\<close>

fun re_sub_aux :: "(string \<Rightarrow> nat option) \<Rightarrow> string \<Rightarrow> nat \<Rightarrow> string \<Rightarrow> string" where
  "re_sub_aux m repl k [] = []"
| "re_sub_aux m repl (Suc k) (c # cs) = re_sub_aux m repl k cs"
| "re_sub_aux m repl 0 (c # cs) =
     (case m (c # cs) of
        None \<Rightarrow> c # re_sub_aux m repl 0 cs
      | Some 0 \<Rightarrow> c # re_sub_aux m repl 0 cs
      | Some (Suc n) \<Rightarrow> repl @ re_sub_aux m repl n cs)"

definition re_sub :: "(string \<Rightarrow> nat option) \<Rightarrow> string \<Rightarrow> string \<Rightarrow> string" where
  "re_sub m repl s = re_sub_aux m repl 0 s"

fun re_findall_aux :: "(string \<Rightarrow> nat option) \<Rightarrow> nat \<Rightarrow> string \<Rightarrow> string list" where
  "re_findall_aux m k [] = []"
| "re_findall_aux m (Suc k) (c # cs) = re_findall_aux m k cs"
| "re_findall_aux m 0 (c # cs) =
     (case m (c # cs) of
        None \<Rightarrow> re_findall_aux m 0 cs
      | Some 0 \<Rightarrow> re_findall_aux m 0 cs
      | Some (Suc n) \<Rightarrow> take (Suc n) (c # cs) # re_findall_aux m n cs)"

definition re_findall :: "(string \<Rightarrow> nat option) \<Rightarrow> string \<Rightarrow> string list" where
  "re_findall m s = re_findall_aux m 0 s"

text \<open>\<open>s.find(pat)\<close>: the index of the first occurrence.\<close>

fun index_of :: "string \<Rightarrow> string \<Rightarrow> nat option" where
  "index_of [] pat = (if pat = [] then Some 0 else None)"
| "index_of (c # cs) pat =
     (if startswith (c # cs) pat then Some 0 else map_option Suc (index_of cs pat))"

text \<open>
  An opening literal, then \<open>.*?\<close> with \<open>re.DOTALL\<close>, then a closing literal: the match ends
  with the first occurrence of the closing literal after the opening one.
\<close>

definition match_span :: "string list \<Rightarrow> string \<Rightarrow> string \<Rightarrow> nat option" where
  "match_span opens close s =
     (case find (startswith s) opens of
        None \<Rightarrow> None
      | Some opn \<Rightarrow>
          (case index_of (drop (length opn) s) close of
             None \<Rightarrow> None
           | Some i \<Rightarrow> Some (length opn + i + length close)))"

text \<open>\<open></think>.*?<think>\<close>, \<open></?think>.*?</think>\<close>, \<open></?think>\<close> and \<open>[/-]+\<close>.\<close>

definition match_close_open :: "string \<Rightarrow> nat option" where
  "match_close_open s = match_span [''</think>''] ''<think>'' s"

definition match_tag_close :: "string \<Rightarrow> nat option" where
  "match_tag_close s = match_span [''</think>'', ''<think>''] ''</think>'' s"

definition match_tag :: "string \<Rightarrow> nat option" where
  "match_tag s = map_option length (find (startswith s) [''</think>'', ''<think>''])"

definition match_formatting :: "string \<Rightarrow> nat option" where
  "match_formatting s =
     (let n = length (takeWhile (\<lambda>c. c = CHR ''/'' \<or> c = CHR ''-'') s)
      in if n = 0 then None else Some n)"

text \<open>The character classes \<open>[0-5]\<close> and \<open>[0-9]\<close>.\<close>

definition is_0_5 :: "char \<Rightarrow> bool" where
  "is_0_5 c = (let n = (of_char c :: nat) in 48 \<le> n \<and> n \<le> 53)"

definition is_0_9 :: "char \<Rightarrow> bool" where
  "is_0_9 c = (let n = (of_char c :: nat) in 48 \<le> n \<and> n \<le> 57)"

text \<open>\<open>[0-5](?:\.[0-9]+)?\<close>\<close>

definition match_score :: "string \<Rightarrow> nat option" where
  "match_score s =
     (case s of
        [] \<Rightarrow> None
      | c # cs \<Rightarrow>
          if is_0_5 c then
            (case cs of
               [] \<Rightarrow> Some 1
             | d # ds \<Rightarrow>
                 if d = CHR ''.'' \<and> takeWhile is_0_9 ds \<noteq> []
                 then Some (2 + length (takeWhile is_0_9 ds)) else Some 1)
          else None)"

text \<open>
  \<open>(?:okay|sure|yes|alright)[,\s]*([0-5](?:\.[0-9])?)\<close> with \<open>re.search\<close>: group 1 of the
  leftmost match.
\<close>

definition match_conversational :: "string \<Rightarrow> string option" where
  "match_conversational s =
     (case find (startswith s) [''okay'', ''sure'', ''yes'', ''alright''] of
        None \<Rightarrow> None
      | Some w \<Rightarrow>
          (case dropWhile (\<lambda>c. c = CHR '','' \<or> py_isspace c) (drop (length w) s) of
             [] \<Rightarrow> None
           | c # cs \<Rightarrow>
               if is_0_5 c then
                 (case cs of
                    d # e # _ \<Rightarrow> if d = CHR ''.'' \<and> is_0_9 e then Some [c, d, e] else Some [c]
                  | _ \<Rightarrow> Some [c])
               else None))"

fun search_conversational :: "string \<Rightarrow> string option" where
  "search_conversational [] = None"
| "search_conversational (c # cs) =
     (case match_conversational (c # cs) of
        Some g \<Rightarrow> Some g
      | None \<Rightarrow> search_conversational cs)"

text \<open>
  \<open>float(s)\<close> on a text that \<open>[0-5](?:\.[0-9]+)?\<close> matched: digits, then possibly a point and
  digits. The value is the exact decimal fraction.
\<close>

definition digits_value :: "string \<Rightarrow> nat" where
  "digits_value ds = foldl (\<lambda>a c. 10 * a + ((of_char c :: nat) - 48)) 0 ds"

definition py_float :: "string \<Rightarrow> rat" where
  "py_float s =
     (let ip = takeWhile (\<lambda>c. c \<noteq> CHR ''.'') s;
          fp = drop 1 (dropWhile (\<lambda>c. c \<noteq> CHR ''.'') s)
      in of_nat (digits_value ip) + of_nat (digits_value fp) / 10 ^ length fp)"

text \<open>\<open>str(n)\<close> for a natural number.\<close>

fun str_nat :: "nat \<Rightarrow> string" where
  "str_nat n = (if n < 10 then [char_of (48 + n)] else str_nat (n div 10) @ [char_of (48 + n mod 10)])"

section \<open>LLMSuggestionEngine (llm.py)\<close>

text \<open>
  The text completion backend \<open>model_inference.run_inference\<close> is external. A call takes the
  state of the backend, the prompt, \<open>max_tokens\<close> and the temperature; it raises or returns a
  text or \<open>None\<close>, and leaves the backend in a new state.
\<close>

datatype inference_result = Raised | Returned "string option"

record 's LLMSuggestionEngine =
  is_initialized :: bool
  LLM_AVAILABLE :: bool
  run_inference :: "'s \<Rightarrow> string \<Rightarrow> nat \<Rightarrow> rat \<Rightarrow> inference_result \<times> 's"

definition query_llm ::
    "'s LLMSuggestionEngine \<Rightarrow> 's \<Rightarrow> string \<Rightarrow> nat \<Rightarrow> rat \<Rightarrow> string option \<times> 's" where
  "query_llm eng s prompt max_tokens temperature =
     (if \<not> is_initialized eng then (None, s)
      else
        (case run_inference eng s prompt max_tokens temperature of
           (Raised, s') \<Rightarrow> (None, s')
         | (Returned None, s') \<Rightarrow> (None, s')
         | (Returned (Some response), s') \<Rightarrow>
             (if response \<noteq> [] then Some (py_strip response) else None, s')))"

definition is_ready :: "'s LLMSuggestionEngine \<Rightarrow> bool" where
  "is_ready eng = (is_initialized eng \<and> LLM_AVAILABLE eng)"

definition type_keywords :: "(string \<times> string) list" where
  "type_keywords =
     [(''code'', ''CODE''), (''web'', ''WEB''), (''url'', ''WEB''), (''email'', ''EMAIL''),
      (''file'', ''FILE''), (''data'', ''DATA''), (''password'', ''PASSWORD''), (''text'', ''TEXT'')]"

text \<open>Lines 175 to 178 of \<open>_classify_content\<close>: the prompt.\<close>

definition classify_prompt :: "string \<Rightarrow> string" where
  "classify_prompt clipboard_content =
     (let content_preview =
            (if length clipboard_content > 35 then take 35 clipboard_content @ ''...''
             else clipboard_content)
      in ''Text:'' @ [CHR 0x22] @ content_preview @ [CHR 0x22] @
         ''.Most likely: code/web/email/file/data/password/text'')"

text \<open>
  \<open>_classify_content\<close>. \<open>Inl\<close> is an exception of the rule classifier, which is called outside
  the \<open>try\<close>. Inside the \<open>try\<close> nothing raises, since \<open>_query_llm\<close> catches what the backend
  raises.
\<close>

definition llm_classify_content ::
    "'s LLMSuggestionEngine \<Rightarrow> 's \<Rightarrow> string \<Rightarrow> (py_error + string) \<times> 's" where
  "llm_classify_content eng s clipboard_content =
     (case classify_content clipboard_content of
        Inl e \<Rightarrow> (Inl e, s)
      | Inr (rule_type, rule_confidence) \<Rightarrow>
          if rule_confidence \<ge> 0.8 then (Inr rule_type, s)
          else
            (case query_llm eng s (classify_prompt clipboard_content) 32 0.1 of
               (None, s') \<Rightarrow> (Inr rule_type, s')
             | (Some response, s') \<Rightarrow>
                 if response \<noteq> [] then
                   (let response_lower = py_strip (py_lower response) in
                    case find (\<lambda>(keyword, result_type). contains response_lower keyword)
                           type_keywords of
                      Some (keyword, result_type) \<Rightarrow> (Inr result_type, s')
                    | None \<Rightarrow> (Inr rule_type, s'))
                 else (Inr rule_type, s')))"

definition rating_words :: "(string \<times> rat) list" where
  "rating_words =
     [(''perfect'', 5), (''excellent'', 5), (''great'', 4), (''good'', 3), (''decent'', 3),
      (''fair'', 2), (''poor'', 2), (''bad'', 1), (''terrible'', 1), (''awful'', 0), (''none'', 0)]"

text \<open>
  Lines 262 to 337 of \<open>_score_window\<close>: from the reply of the backend to the normalized score.
\<close>

definition clean_response :: "string \<Rightarrow> string" where
  "clean_response response =
     py_strip
       (re_sub match_formatting '' ''
          (re_sub match_tag []
             (re_sub match_tag_close []
                (re_sub match_close_open [] (py_strip response)))))"

definition score_response :: "string \<Rightarrow> rat option" where
  "score_response response =
     (if response = [] \<or> py_strip response = [] then None
      else
        (let response_clean = clean_response response in
         if response_clean = [] then None
         else if contains (py_lower response_clean) ''yes'' then Some 0.8
         else if contains (py_lower response_clean) ''no'' then Some 0.2
         else if contains response_clean ''12345'' then Some 1.0
         else
           (let scores = re_findall match_score response_clean;
                valid_scores = filter (\<lambda>score. 0 \<le> score \<and> score \<le> 5) (map py_float scores)
            in case valid_scores of
                 v # vs \<Rightarrow> Some (min 1.0 (fold max vs v / 5.0))
               | [] \<Rightarrow>
                   (case search_conversational (py_lower response_clean) of
                      Some g \<Rightarrow> Some (min 1.0 (py_float g / 5.0))
                    | None \<Rightarrow>
                        (case find (\<lambda>(word, score). contains (py_lower response_clean) word)
                                rating_words of
                           Some (word, score) \<Rightarrow> Some (score / 5.0)
                         | None \<Rightarrow> None)))))"

definition score_prompt :: "string \<Rightarrow> WindowInfo \<Rightarrow> string" where
  "score_prompt content_type window =
     (let app_name = take 8 (py_replace ''.exe'' [] (process_name window))
      in app_name @ '' for '' @ py_lower content_type @ '' (0-5):'')"

definition score_window ::
    "'s LLMSuggestionEngine \<Rightarrow> 's \<Rightarrow> string \<Rightarrow> string \<Rightarrow> WindowInfo \<Rightarrow> rat option \<times> 's" where
  "score_window eng s clipboard_content content_type window =
     (case query_llm eng s (score_prompt content_type window) 10 0.1 of
        (None, s') \<Rightarrow> (None, s')
      | (Some response, s') \<Rightarrow> (score_response response, s'))"

text \<open>Lines 71 to 76 of \<open>get_suggestions\<close>: the loop over the first windows.\<close>

fun score_windows ::
    "'s LLMSuggestionEngine \<Rightarrow> 's \<Rightarrow> string \<Rightarrow> string \<Rightarrow> WindowInfo list
       \<Rightarrow> (WindowInfo \<times> rat) list \<times> 's" where
  "score_windows eng s clipboard_content content_type [] = ([], s)"
| "score_windows eng s clipboard_content content_type (window # windows) =
     (case score_window eng s clipboard_content content_type window of
        (score, s') \<Rightarrow>
          (case score_windows eng s' clipboard_content content_type windows of
             (window_scores, s'') \<Rightarrow>
               ((case score of None \<Rightarrow> window_scores | Some sc \<Rightarrow> (window, sc) # window_scores),
                s'')))"

text \<open>Lines 78 to 93: the decision on the scored windows.\<close>

definition rank_window_scores :: "(WindowInfo \<times> rat) list \<Rightarrow> suggestion list option" where
  "rank_window_scores window_scores =
     (if length window_scores < 2 then None
      else Some (map (\<lambda>(i, (window, score)). (''AI Rank #'' @ str_nat (i + 1), window, ScoreConf score))
                   (enumerate 0 (take 3 (sort_by_score_desc window_scores)))))"

text \<open>
  \<open>LLMSuggestionEngine.get_suggestions\<close>. The \<open>except\<close> of the function turns an exception of
  the classification into \<open>None\<close>.
\<close>

definition llm_get_suggestions ::
    "'s LLMSuggestionEngine \<Rightarrow> 's \<Rightarrow> string \<Rightarrow> WindowInfo option \<Rightarrow> WindowInfo list
       \<Rightarrow> suggestion list option \<times> 's" where
  "llm_get_suggestions eng s clipboard_content current_window available_windows =
     (if \<not> is_initialized eng \<or> available_windows = [] then (None, s)
      else
        (case llm_classify_content eng s clipboard_content of
           (Inl e, s1) \<Rightarrow> (None, s1)
         | (Inr content_type, s1) \<Rightarrow>
             if content_type = [] then (None, s1)
             else
               (case score_windows eng s1 clipboard_content content_type
                       (take 5 available_windows) of
                  (window_scores, s2) \<Rightarrow> (rank_window_scores window_scores, s2))))"

section \<open>MultitaskController (controller.py)\<close>

definition STATUS_AI_ANALYZING :: string where
  "STATUS_AI_ANALYZING = ''AI analyzing...''"

definition STATUS_RULE_ANALYZING :: string where
  "STATUS_RULE_ANALYZING = ''Using rule-based suggestions...''"

definition STATUS_READY :: string where
  "STATUS_READY = ''Ready''"

text \<open>
  The controller reports through \<open>_update_status\<close>; the calls are kept as the list of the
  statuses, in order. The window list is what \<open>get_filtered_windows\<close> of the external window
  manager returns, and \<open>current_window\<close> what \<open>_get_current_window\<close> returns.
\<close>

definition try_llm_suggestions ::
    "'s LLMSuggestionEngine option \<Rightarrow> 's \<Rightarrow> string \<Rightarrow> WindowInfo option \<Rightarrow> WindowInfo list
       \<Rightarrow> suggestion list option \<times> string list \<times> 's" where
  "try_llm_suggestions llm_engine s content current_window available_windows =
     (case llm_engine of
        None \<Rightarrow> (None, [], s)
      | Some eng \<Rightarrow>
          if \<not> is_ready eng then (None, [], s)
          else
            (case llm_get_suggestions eng s content current_window available_windows of
               (suggestions, s') \<Rightarrow> (suggestions, [STATUS_AI_ANALYZING], s')))"

definition try_rule_suggestions ::
    "string \<Rightarrow> WindowInfo option \<Rightarrow> WindowInfo list \<Rightarrow> py_error + suggestion list \<times> string list" where
  "try_rule_suggestions content current_window available_windows =
     (case rule_get_suggestions content current_window available_windows of
        Inl e \<Rightarrow> Inl e
      | Inr suggestions \<Rightarrow>
          Inr (case suggestions of
                 None \<Rightarrow> []
               | Some sgs \<Rightarrow> if sgs \<noteq> [] then sgs else [],
               [STATUS_RULE_ANALYZING]))"

definition final_status :: "suggestion list \<Rightarrow> string" where
  "final_status suggestions =
     (if suggestions \<noteq> [] then STATUS_READY @ '' - '' @ str_nat (length suggestions) @ '' suggestions''
      else STATUS_READY @ '' - No suggestions'')"

definition get_suggestions_for_content ::
    "'s LLMSuggestionEngine option \<Rightarrow> 's \<Rightarrow> WindowInfo list \<Rightarrow> WindowInfo option \<Rightarrow> string
       \<Rightarrow> py_error + suggestion list \<times> string list \<times> 's" where
  "get_suggestions_for_content llm_engine s available_windows current_window content =
     (if py_strip content = [] then Inr ([], [], s)
      else if available_windows = [] then Inr ([], [], s)
      else
        (case try_llm_suggestions llm_engine s content current_window available_windows of
           (suggestions, st1, s') \<Rightarrow>
             (case suggestions of
                Some sgs \<Rightarrow>
                  if sgs \<noteq> [] then Inr (sgs, st1 @ [final_status sgs], s')
                  else
                    (case try_rule_suggestions content current_window available_windows of
                       Inl e \<Rightarrow> Inl e
                     | Inr (sgs', st2) \<Rightarrow> Inr (sgs', st1 @ st2 @ [final_status sgs'], s'))
              | None \<Rightarrow>
                  (case try_rule_suggestions content current_window available_windows of
                     Inl e \<Rightarrow> Inl e
                   | Inr (sgs', st2) \<Rightarrow> Inr (sgs', st1 @ st2 @ [final_status sgs'], s')))))"

section \<open>Sample backends\<close>

text \<open>A backend that raises on the classification prompt and replies 5 to every other one.\<close>

definition raising_classifier_inference ::
    "unit \<Rightarrow> string \<Rightarrow> nat \<Rightarrow> rat \<Rightarrow> inference_result \<times> unit" where
  "raising_classifier_inference s prompt max_tokens temperature =
     (if startswith prompt ''Text:'' then (Raised, ()) else (Returned (Some ''5''), ()))"

definition raising_classifier_engine :: "unit LLMSuggestionEngine" where
  "raising_classifier_engine =
     \<lparr>is_initialized = True, LLM_AVAILABLE = True, run_inference = raising_classifier_inference\<rparr>"

section \<open>Scored candidates of one invocation\<close>

text \<open>
  The windows among the first 5 that yield a parseable score in one invocation of the model
  path, each with its score: what the loop of \<open>get_suggestions\<close> collects after the
  classification.
\<close>

definition window_scores_of ::
    "'s LLMSuggestionEngine \<Rightarrow> 's \<Rightarrow> string \<Rightarrow> WindowInfo list \<Rightarrow> (WindowInfo \<times> rat) list" where
  "window_scores_of eng s clipboard_content available_windows =
     (case llm_classify_content eng s clipboard_content of
        (Inl e, s1) \<Rightarrow> []
      | (Inr content_type, s1) \<Rightarrow>
          fst (score_windows eng s1 clipboard_content content_type (take 5 available_windows)))"

text \<open>A backend where every query fails.\<close>

definition raising_inference :: "unit \<Rightarrow> string \<Rightarrow> nat \<Rightarrow> rat \<Rightarrow> inference_result \<times> unit" where
  "raising_inference s prompt max_tokens temperature = (Raised, ())"

definition raising_engine :: "unit LLMSuggestionEngine" where
  "raising_engine =
     \<lparr>is_initialized = True, LLM_AVAILABLE = True, run_inference = raising_inference\<rparr>"

section \<open>Sample contents\<close>

text \<open>The path \<open>C:\Users\me\notes.txt\<close>, with single backslashes.\<close>

definition windows_path :: string where
  "windows_path = ''C:'' @ [backslash] @ ''Users'' @ [backslash] @ ''me'' @ [backslash] @ ''notes.txt''"

section \<open>The classifier never raises\<close>

lemma split_on_nonempty: "split_on sep s \<noteq> []"
  by (induction s) (auto split: list.splits)

lemma py_last_split_on: "\<exists>l. py_last (split_on sep s) = Inr l"
  using split_on_nonempty [of sep s]
  by (cases "rev (split_on sep s)") (auto simp: py_last_def)

lemma email_address_cases:
  "email_address content = Inr None \<or> email_address content = Inr (Some (''EMAIL'', 0.9))
     \<or> email_address content = Inr (Some (''EMAIL'', 0.7))"
proof -
  obtain l where l: "py_last (split_on CHR ''.'' (split_on CHR ''@'' content ! Suc 0)) = Inr l"
    using py_last_split_on by blast
  show ?thesis
    by (simp add: email_address_def Let_def py_index_def l)
qed

lemma classified_Inr:
  "classified (Inr (cat, conf)) = (cat \<in> set categories \<and> 0 \<le> conf \<and> conf \<le> 1)"
  by (simp add: classified_def)

lemma member_categories:
  "''CODE'' \<in> set categories" "''WEB'' \<in> set categories"
  "''EMAIL'' \<in> set categories" "''FILE'' \<in> set categories"
  "''PASSWORD'' \<in> set categories" "''DATA'' \<in> set categories"
  "''TEXT'' \<in> set categories"
  by (simp_all add: categories_def)

lemma if_boolI: "A \<Longrightarrow> B \<Longrightarrow> (if c then A else B)"
  by simp

lemma code_score_nonneg: "0 \<le> code_score s"
  by (simp add: code_score_def)

lemma classify_content_none:
  "email_address content = Inr None \<Longrightarrow> classified (classify_content content)"
  unfolding classify_content_def Let_def
  apply (simp only: sum.case option.case)
  apply (simp only: classified_Inr if_distrib [of classified])
  apply (simp only: classified_Inr member_categories simp_thms)
  apply (intro if_boolI conjI)
  apply (simp_all add: min_le_iff_disj code_score_nonneg)
  done

lemma classify_content_some:
  "email_address content = Inr (Some (''EMAIL'', conf)) \<Longrightarrow> 0 \<le> conf \<Longrightarrow> conf \<le> 1
     \<Longrightarrow> classified (classify_content content)"
  unfolding classify_content_def Let_def
  apply (simp only: sum.case option.case)
  apply (simp only: classified_Inr if_distrib [of classified])
  apply (simp only: classified_Inr member_categories simp_thms)
  apply (intro if_boolI conjI)
  apply simp_all
  done

lemma classify_content_classified: "classified (classify_content content)"
  using email_address_cases [of content] classify_content_none [of content]
    classify_content_some [of content "0.9"] classify_content_some [of content "0.7"]
  by fastforce

lemma classify_content_Inr:
  obtains cat conf where "classify_content content = Inr (cat, conf)"
    "cat \<in> set categories" "0 \<le> conf" "conf \<le> 1"
  using classify_content_classified [of content]
  by (auto simp: classified_def split: sum.splits)

text \<open>
  C10. \<open>classify_content\<close> raises on no string: it returns one of the seven categories with a
  confidence between 0 and 1, and the empty string is classified as TEXT with confidence 0.6.
\<close>

theorem classify_content_total:
  "(\<exists>cat conf. classify_content content = Inr (cat, conf) \<and> cat \<in> set categories
       \<and> 0 \<le> conf \<and> conf \<le> 1)
   \<and> classify_content [] = Inr (''TEXT'', 0.6)"
proof -
  have "classify_content [] = Inr (''TEXT'', 0.6)"
    by code_simp
  then show ?thesis
    using classify_content_Inr [of content] by metis
qed

section \<open>The ranker\<close>

lemma calculate_window_score_le_1: "calculate_window_score w m c \<le> 1"
  by (simp add: calculate_window_score_def Let_def)

lemma set_sort_by_score_desc: "set (sort_by_score_desc xs) = set xs"
  by (simp add: sort_by_score_desc_def)

lemma length_sort_by_score_desc: "length (sort_by_score_desc xs) = length xs"
  by (simp add: sort_by_score_desc_def)

lemma sorted_sort_by_score_desc:
  "sorted_wrt (\<lambda>a b. b \<le> a) (map snd (sort_by_score_desc xs))"
proof -
  have "sorted (map (\<lambda>x. - snd x) (sort_by_score_desc xs))"
    by (simp add: sort_by_score_desc_def)
  then show ?thesis
    by (simp add: sorted_wrt_map)
qed

lemma stable_sort_by_score_desc:
  "filter (\<lambda>p. snd p = k) (sort_by_score_desc xs) = filter (\<lambda>p. snd p = k) xs"
proof -
  have "filter (\<lambda>p. - snd p = - k) (sort_key (\<lambda>x. - snd x) xs) = filter (\<lambda>p. - snd p = - k) xs"
    by (rule sort_key_stable)
  then show ?thesis
    by (simp add: sort_by_score_desc_def)
qed

lemma distinct_map_sort_by_score_desc:
  "distinct (map f (sort_by_score_desc xs)) = distinct (map f xs)"
  by (simp add: sort_by_score_desc_def distinct_map)

text \<open>
  C8. The ranked list of \<open>_get_suggestions_for_type\<close> holds only windows with a score above 0,
  every score is the window's score and at most 1, the scores descend, and the windows of one
  score stand in the order of the window list.
\<close>

theorem scored_windows_ranked:
  "list_all (\<lambda>p. 0 < snd p \<and> snd p \<le> 1 \<and> snd p = calculate_window_score (fst p) mapping content)
      (scored_windows mapping content windows)
   \<and> sorted_wrt (\<lambda>a b. b \<le> a) (map snd (scored_windows mapping content windows))
   \<and> map fst (filter (\<lambda>p. snd p = k) (scored_windows mapping content windows))
       = filter (\<lambda>w. calculate_window_score w mapping content = k \<and> 0 < k) windows"
proof -
  let ?sc = "\<lambda>w. calculate_window_score w mapping content"
  let ?xs = "filter (\<lambda>ws. 0 < snd ws) (map (\<lambda>w. (w, ?sc w)) windows)"
  have a: "list_all (\<lambda>p. 0 < snd p \<and> snd p \<le> 1 \<and> snd p = ?sc (fst p))
             (scored_windows mapping content windows)"
    by (auto simp: list_all_iff scored_windows_def set_sort_by_score_desc
          calculate_window_score_le_1)
  have b: "sorted_wrt (\<lambda>a b. b \<le> a) (map snd (scored_windows mapping content windows))"
    unfolding scored_windows_def by (rule sorted_sort_by_score_desc)
  have "map fst (filter (\<lambda>p. snd p = k) ?xs) = filter (\<lambda>w. ?sc w = k \<and> 0 < k) windows"
    by (induction windows) auto
  then have c: "map fst (filter (\<lambda>p. snd p = k) (scored_windows mapping content windows))
       = filter (\<lambda>w. ?sc w = k \<and> 0 < k) windows"
    by (simp add: scored_windows_def stable_sort_by_score_desc)
  from a b c show ?thesis by blast
qed

section \<open>The rule suggester\<close>

lemma scored_windows_distinct:
  assumes "distinct (map hwnd windows)"
  shows "distinct (map (\<lambda>p. hwnd (fst p)) (scored_windows mapping content windows))"
proof -
  let ?xs = "map (\<lambda>w. (w, calculate_window_score w mapping content)) windows"
  have "map (\<lambda>p. hwnd (fst p)) ?xs = map hwnd windows"
    by (simp add: comp_def)
  with assms have "distinct (map (\<lambda>p. hwnd (fst p)) ?xs)"
    by (simp only:)
  then have "distinct (map (\<lambda>p. hwnd (fst p)) (filter (\<lambda>ws. 0 < snd ws) ?xs))"
    by (rule distinct_map_filter)
  then show ?thesis
    by (simp add: scored_windows_def distinct_map_sort_by_score_desc)
qed

lemma primary_hwnds:
  "map (\<lambda>sg. hwnd (suggestion_window sg)) (get_suggestions_for_type t conf c ws)
     = (case map_of content_mappings t of None \<Rightarrow> []
        | Some m \<Rightarrow> map (\<lambda>p. hwnd (fst p)) (take 3 (scored_windows m c ws)))"
  by (simp add: get_suggestions_for_type_def suggestion_window_def comp_def case_prod_unfold
        split: option.split)

lemma primary_distinct:
  "distinct (map hwnd ws) \<Longrightarrow>
     distinct (map (\<lambda>sg. hwnd (suggestion_window sg)) (get_suggestions_for_type t conf c ws))"
  using scored_windows_distinct [of ws]
  by (simp add: primary_hwnds take_map [symmetric] split: option.split)

lemma recent_hwnds:
  "map (\<lambda>sg. hwnd (suggestion_window sg)) (get_recent_windows ws ex)
     = filter (\<lambda>h. h \<notin> set (map (\<lambda>sg. hwnd (suggestion_window sg)) ex))
         (map hwnd (filter (\<lambda>w. \<not> is_minimized w) ws))"
  by (induction ws) (auto simp: get_recent_windows_def suggestion_window_def Let_def)

lemma recent_distinct:
  "distinct (map hwnd ws) \<Longrightarrow>
     distinct (map (\<lambda>sg. hwnd (suggestion_window sg)) (get_recent_windows ws ex))"
  by (simp add: recent_hwnds distinct_map_filter)

lemma recent_disjoint:
  "set (map (\<lambda>sg. hwnd (suggestion_window sg)) (get_recent_windows ws ex))
     \<inter> set (map (\<lambda>sg. hwnd (suggestion_window sg)) ex) = {}"
  unfolding recent_hwnds by auto

lemma fill_distinct:
  assumes "distinct (map g P)" "distinct (map g R)" "set (map g R) \<inter> set (map g P) = {}"
  shows "distinct (map g (take 3 (P @ take n R)))"
proof -
  have "distinct (map g (take n R))"
    using assms(2) by (simp add: take_map [symmetric])
  moreover have "set (map g (take n R)) \<subseteq> set (map g R)"
    by (metis set_take_subset take_map)
  ultimately have "distinct (map g (P @ take n R))"
    using assms(1,3) by auto
  then show ?thesis
    by (simp add: take_map [symmetric] del: take_append)
qed

text \<open>The function after the classification, with the two ways to \<open>None\<close> spelled out.\<close>

lemma rule_get_suggestions_unfold:
  assumes "classify_content c = Inr (cat, conf)"
  shows "rule_get_suggestions c cw ws =
     (if ws = [] then Inr None
      else if get_suggestions_for_type cat conf c ws = [] \<and>
              get_recent_windows ws (get_suggestions_for_type cat conf c ws) = [] then Inr None
      else Inr (Some (take 3 (get_suggestions_for_type cat conf c ws @
              take (3 - length (get_suggestions_for_type cat conf c ws))
                (get_recent_windows ws (get_suggestions_for_type cat conf c ws))))))"
proof -
  define P where "P = get_suggestions_for_type cat conf c ws"
  define R where "R = get_recent_windows ws P"
  define S where "S = (if length P < 3 then P @ take (3 - length P) R else P)"
  have r: "rule_get_suggestions c cw ws =
      (if ws = [] then Inr None else Inr (if S \<noteq> [] then Some (take 3 S) else None))"
    by (simp only: rule_get_suggestions_def assms sum.case prod.case Let_def P_def R_def S_def)
  have e: "(S = []) = (P = [] \<and> R = [])"
    by (cases R) (auto simp: S_def)
  have t: "take 3 S = take 3 (P @ take (3 - length P) R)"
    by (simp add: S_def)
  show ?thesis
    unfolding r e t P_def [symmetric] R_def [symmetric] by simp
qed

text \<open>
  C7. On a window list with pairwise distinct handles, \<open>get_suggestions\<close> of the rule engine
  returns without raising, and a returned list has at most 3 suggestions, no two for the same
  handle.
\<close>

theorem rule_suggestions_capped_distinct:
  assumes "distinct (map hwnd ws)"
  shows "\<exists>r. rule_get_suggestions c cw ws = Inr r \<and>
           (case r of None \<Rightarrow> True
            | Some sgs \<Rightarrow> length sgs \<le> 3 \<and> distinct (map (\<lambda>sg. hwnd (suggestion_window sg)) sgs))"
proof -
  obtain cat conf where cl: "classify_content c = Inr (cat, conf)"
    by (rule classify_content_Inr)
  let ?g = "\<lambda>sg. hwnd (suggestion_window sg)"
  let ?P = "get_suggestions_for_type cat conf c ws"
  let ?R = "get_recent_windows ws ?P"
  let ?S = "take 3 (?P @ take (3 - length ?P) ?R)"
  have P: "distinct (map ?g ?P)" using assms by (rule primary_distinct)
  have R: "distinct (map ?g ?R)" using assms by (rule recent_distinct)
  have d: "distinct (map ?g ?S)"
    using P R recent_disjoint by (rule fill_distinct)
  have l: "length ?S \<le> 3"
    by (simp del: take_append)
  show ?thesis
    unfolding rule_get_suggestions_unfold [OF cl]
    using d l by (simp only: if_distrib option.case sum.inject simp_thms split: if_split)
qed

theorem rule_suggestions_capped_distinct_witness:
  "distinct (map hwnd [chrome_window, notepad_window]) \<and>
   (\<exists>r. rule_get_suggestions ''https://github.com/foo'' None [chrome_window, notepad_window] = Inr r \<and>
      (case r of None \<Rightarrow> True
       | Some sgs \<Rightarrow> length sgs \<le> 3 \<and> distinct (map (\<lambda>sg. hwnd (suggestion_window sg)) sgs)))"
proof -
  have h: "distinct (map hwnd [chrome_window, notepad_window])"
    by (simp add: chrome_window_def notepad_window_def)
  show ?thesis
    using h rule_suggestions_capped_distinct [OF h] by blast
qed

lemma recent_windows_empty:
  "(get_recent_windows ws [] = []) = (\<not> list_ex (\<lambda>w. \<not> is_minimized w) ws)"
  by (simp add: get_recent_windows_def Let_def filter_empty_conv list_ex_iff)

text \<open>
  C1, as the code has it. The filler takes only windows that are not minimized. So the result
  is a non-empty list exactly when the window list is not empty and either there is a primary
  suggestion or some window is not minimized; in every other case the result is \<open>None\<close>.
\<close>

theorem rule_suggestions_nonempty:
  "(ws \<noteq> [] \<and> (primary_suggestions c ws \<noteq> [] \<or> list_ex (\<lambda>w. \<not> is_minimized w) ws) \<longrightarrow>
      (\<exists>sgs. rule_get_suggestions c cw ws = Inr (Some sgs) \<and> sgs \<noteq> []))
   \<and> (\<not> (ws \<noteq> [] \<and> (primary_suggestions c ws \<noteq> [] \<or> list_ex (\<lambda>w. \<not> is_minimized w) ws)) \<longrightarrow>
      rule_get_suggestions c cw ws = Inr None)"
proof -
  obtain cat conf where cl: "classify_content c = Inr (cat, conf)"
    by (rule classify_content_Inr)
  define P where "P = get_suggestions_for_type cat conf c ws"
  define R where "R = get_recent_windows ws P"
  have p: "primary_suggestions c ws = P"
    by (simp add: primary_suggestions_def cl P_def)
  have u: "rule_get_suggestions c cw ws =
     (if ws = [] then Inr None
      else if P = [] \<and> R = [] then Inr None
      else Inr (Some (take 3 (P @ take (3 - length P) R))))"
    unfolding P_def R_def by (rule rule_get_suggestions_unfold [OF cl])
  have e: "(P = [] \<and> R = []) = (P = [] \<and> \<not> list_ex (\<lambda>w. \<not> is_minimized w) ws)"
    using recent_windows_empty [of ws] by (auto simp: R_def)
  have n: "take 3 (P @ take (3 - length P) R) \<noteq> []" if "\<not> (P = [] \<and> R = [])"
  proof (cases "P = []")
    case True
    with that have "R \<noteq> []" by simp
    then show ?thesis
      using True by (cases R) simp_all
  next
    case False
    then show ?thesis
      by (cases P) simp_all
  qed
  show ?thesis
  proof (cases "ws \<noteq> [] \<and> (P \<noteq> [] \<or> list_ex (\<lambda>w. \<not> is_minimized w) ws)")
    case True
    then have "\<not> (P = [] \<and> R = [])" "ws \<noteq> []"
      using e by blast+
    then show ?thesis
      using n True by (simp add: u p)
  next
    case False
    then have "ws = [] \<or> (P = [] \<and> R = [])"
      using e by blast
    then show ?thesis
      using False by (auto simp: u p)
  qed
qed

theorem rule_suggestions_nonempty_witness:
  "[notepad_window] \<noteq> [] \<and> list_ex (\<lambda>w. \<not> is_minimized w) [notepad_window]
   \<and> (\<exists>sgs. rule_get_suggestions ''hello'' None [notepad_window] = Inr (Some sgs) \<and> sgs \<noteq> [])
   \<and> [minimized_notepad_window] \<noteq> [] \<and> primary_suggestions ''hello'' [minimized_notepad_window] \<noteq> []
   \<and> (\<exists>sgs. rule_get_suggestions ''hello'' None [minimized_notepad_window] = Inr (Some sgs) \<and> sgs \<noteq> [])
   \<and> \<not> ([minimized_window] \<noteq> [] \<and> (primary_suggestions ''hello'' [minimized_window] \<noteq> [] \<or>
           list_ex (\<lambda>w. \<not> is_minimized w) [minimized_window]))
   \<and> rule_get_suggestions ''hello'' None [minimized_window] = Inr None"
proof -
  have a: "list_ex (\<lambda>w. \<not> is_minimized w) [notepad_window]"
    by (simp add: notepad_window_def)
  have b: "primary_suggestions ''hello'' [minimized_notepad_window] \<noteq> []"
    by code_simp
  have c: "\<not> ([minimized_window] \<noteq> [] \<and> (primary_suggestions ''hello'' [minimized_window] \<noteq> [] \<or>
           list_ex (\<lambda>w. \<not> is_minimized w) [minimized_window]))"
    by code_simp
  have a': "\<exists>sgs. rule_get_suggestions ''hello'' None [notepad_window] = Inr (Some sgs) \<and> sgs \<noteq> []"
    using rule_suggestions_nonempty [of "[notepad_window]" "''hello''" None] a by simp
  have b': "\<exists>sgs. rule_get_suggestions ''hello'' None [minimized_notepad_window] = Inr (Some sgs) \<and> sgs \<noteq> []"
    using rule_suggestions_nonempty [of "[minimized_notepad_window]" "''hello''" None] b by simp
  have c': "rule_get_suggestions ''hello'' None [minimized_window] = Inr None"
    using rule_suggestions_nonempty [of "[minimized_window]" "''hello''" None] c by blast
  from a a' b b' c c' show ?thesis
    by simp
qed

text \<open>
  C1, as the specification states it, fails: a single minimized window that matches nothing in the
  affinity table of the content's category gives no suggestion at all.
\<close>

theorem rule_suggestions_empty_counterexample:
  "rule_get_suggestions ''hello'' None [minimized_window] = Inr None"
  by code_simp

section \<open>The model path\<close>

declare str_nat.simps [simp del]

lemma find_Some_in_set: "find P xs = Some x \<Longrightarrow> x \<in> set xs"
  by (induction xs) (auto split: if_splits)

lemma type_keywords_nonempty: "(k, t) \<in> set type_keywords \<Longrightarrow> t \<noteq> []"
  by (auto simp: type_keywords_def)

lemma categories_nonempty: "cat \<in> set categories \<Longrightarrow> cat \<noteq> []"
  by (auto simp: categories_def)

lemma llm_classify_content_cases:
  assumes "classify_content c = Inr (cat, conf)"
  shows "\<exists>s1. llm_classify_content eng s c = (Inr cat, s1)
           \<or> (\<exists>k t. (k, t) \<in> set type_keywords \<and> llm_classify_content eng s c = (Inr t, s1))"
proof -
  obtain r s' where q: "query_llm eng s (classify_prompt c) 32 0.1 = (r, s')"
    by (cases "query_llm eng s (classify_prompt c) 32 0.1") blast
  have u: "llm_classify_content eng s c =
     (if conf \<ge> 0.8 then (Inr cat, s)
      else (case r of
              None \<Rightarrow> (Inr cat, s')
            | Some response \<Rightarrow>
                 if response \<noteq> [] then
                   (case find (\<lambda>(keyword, result_type). contains (py_strip (py_lower response)) keyword)
                           type_keywords of
                      Some (keyword, result_type) \<Rightarrow> (Inr result_type, s')
                    | None \<Rightarrow> (Inr cat, s'))
                 else (Inr cat, s')))"
    unfolding llm_classify_content_def assms q Let_def
    by (simp only: sum.case prod.case split: option.split)
  show ?thesis
    unfolding u
    by (auto split: option.splits dest: find_Some_in_set)
qed

lemma llm_classify_content_Inr:
  "\<exists>ct s1. llm_classify_content eng s c = (Inr ct, s1) \<and> ct \<noteq> []"
proof -
  obtain cat conf where cl: "classify_content c = Inr (cat, conf)" and "cat \<in> set categories"
    by (rule classify_content_Inr)
  then have "cat \<noteq> []"
    by (simp add: categories_nonempty)
  then show ?thesis
    using llm_classify_content_cases [OF cl, of eng s] type_keywords_nonempty by blast
qed

lemma query_llm_uninitialized: "\<not> is_initialized eng \<Longrightarrow> query_llm eng s p m t = (None, s)"
  by (simp add: query_llm_def)

lemma score_windows_uninitialized:
  "\<not> is_initialized eng \<Longrightarrow> score_windows eng s c ct ws = ([], s)"
  by (induction ws arbitrary: s) (simp_all add: score_window_def query_llm_uninitialized)

lemma window_scores_of_uninitialized:
  "\<not> is_initialized eng \<Longrightarrow> window_scores_of eng s c ws = []"
  by (simp add: window_scores_of_def score_windows_uninitialized split: prod.splits sum.splits)

lemma llm_get_suggestions_initialized:
  assumes "is_initialized eng" "ws \<noteq> []"
  shows "fst (llm_get_suggestions eng s c cw ws) = rank_window_scores (window_scores_of eng s c ws)"
proof -
  obtain ct s1 where cl: "llm_classify_content eng s c = (Inr ct, s1)" and ne: "ct \<noteq> []"
    using llm_classify_content_Inr [of eng s c] by blast
  obtain sc s2 where sw: "score_windows eng s1 c ct (take 5 ws) = (sc, s2)"
    by (cases "score_windows eng s1 c ct (take 5 ws)") blast
  have a: "llm_get_suggestions eng s c cw ws = (rank_window_scores sc, s2)"
    unfolding llm_get_suggestions_def cl sw
    using assms ne by (simp only: simp_thms if_False prod.case sum.case sw)
  have b: "window_scores_of eng s c ws = sc"
    unfolding window_scores_of_def cl sw
    by (simp only: prod.case sum.case fst_conv sw)
  show ?thesis
    unfolding a b by (simp only: fst_conv)
qed

lemma rank_labels:
  assumes "n \<le> 3"
  shows "map (\<lambda>i. ''AI Rank #'' @ str_nat (i + 1)) [0..<n]
           = take n [''AI Rank #1'', ''AI Rank #2'', ''AI Rank #3'']"
proof -
  have s: "str_nat 1 = ''1''" "str_nat 2 = ''2''" "str_nat 3 = ''3''"
    by code_simp+
  from assms consider "n = 0" | "n = 1" | "n = 2" | "n = 3"
    by linarith
  then show ?thesis
  proof cases
    case 1 then show ?thesis by simp
  next
    case 2 then show ?thesis using s by simp
  next
    case 3
    have "[0..<2] = [0, Suc 0]" by (simp add: upt_rec)
    with 3 show ?thesis using s by (simp add: numeral_2_eq_2)
  next
    case 4
    have "[0..<3] = [0, Suc 0, Suc (Suc 0)]" by (simp add: upt_rec)
    with 4 show ?thesis using s by (simp add: numeral_2_eq_2 numeral_3_eq_3)
  qed
qed

lemma rank_window_scores_Some:
  assumes "2 \<le> length scored"
  shows "\<exists>sgs. rank_window_scores scored = Some sgs
          \<and> length sgs = min 3 (length scored)
          \<and> map (\<lambda>sg. (suggestion_window sg, snd (snd sg))) sgs
              = map (\<lambda>p. (fst p, ScoreConf (snd p))) (take 3 (sort_by_score_desc scored))
          \<and> map fst sgs = take (length sgs) [''AI Rank #1'', ''AI Rank #2'', ''AI Rank #3'']"
proof -
  define ranked where "ranked = take 3 (sort_by_score_desc scored)"
  define sgs where "sgs = map (\<lambda>(i, (window, score)). (''AI Rank #'' @ str_nat (i + 1), window, ScoreConf score))
                   (enumerate 0 ranked)"
  have r: "rank_window_scores scored = Some sgs"
    using assms by (simp add: rank_window_scores_def sgs_def ranked_def)
  have l: "length sgs = min 3 (length scored)"
    by (simp add: sgs_def ranked_def length_sort_by_score_desc min.commute)
  have "map (\<lambda>sg. (suggestion_window sg, snd (snd sg))) sgs
          = map ((\<lambda>p. (fst p, ScoreConf (snd p))) \<circ> snd) (enumerate 0 ranked)"
    by (simp add: sgs_def suggestion_window_def comp_def case_prod_unfold)
  also have "\<dots> = map (\<lambda>p. (fst p, ScoreConf (snd p))) ranked"
    by (simp only: map_map [symmetric] map_snd_enumerate)
  finally have w: "map (\<lambda>sg. (suggestion_window sg, snd (snd sg))) sgs
          = map (\<lambda>p. (fst p, ScoreConf (snd p))) (take 3 (sort_by_score_desc scored))"
    by (simp add: ranked_def)
  have "map fst sgs = map ((\<lambda>i. ''AI Rank #'' @ str_nat (i + 1)) \<circ> fst) (enumerate 0 ranked)"
    by (simp add: sgs_def comp_def case_prod_unfold)
  also have "\<dots> = map (\<lambda>i. ''AI Rank #'' @ str_nat (i + 1)) [0..<length ranked]"
    by (simp only: map_map [symmetric] map_fst_enumerate) simp
  also have "\<dots> = take (length ranked) [''AI Rank #1'', ''AI Rank #2'', ''AI Rank #3'']"
    by (rule rank_labels) (simp add: ranked_def)
  finally have f: "map fst sgs = take (length sgs) [''AI Rank #1'', ''AI Rank #2'', ''AI Rank #3'']"
    by (simp add: sgs_def)
  from r l w f show ?thesis by blast
qed

text \<open>
  C2. On a non-empty window list, the model path returns \<open>None\<close> when fewer than 2 of the
  first 5 windows get a score; otherwise it returns the first 3 of the scored windows in
  descending order of score, equal scores in their order of scoring, each labelled with its
  rank and its score.
\<close>

theorem llm_suggestions_decision:
  assumes "available_windows \<noteq> []"
  shows "(length (window_scores_of eng s content available_windows) < 2 \<longrightarrow>
            fst (llm_get_suggestions eng s content current_window available_windows) = None)
       \<and> (2 \<le> length (window_scores_of eng s content available_windows) \<longrightarrow>
            (\<exists>sgs ranked.
               fst (llm_get_suggestions eng s content current_window available_windows) = Some sgs
             \<and> sorted_wrt (\<lambda>a b. snd b \<le> snd a) ranked
             \<and> (\<forall>k. filter (\<lambda>p. snd p = k) ranked
                      = filter (\<lambda>p. snd p = k) (window_scores_of eng s content available_windows))
             \<and> length sgs = min 3 (length ranked)
             \<and> map (\<lambda>sg. (suggestion_window sg, snd (snd sg))) sgs
                 = map (\<lambda>p. (fst p, ScoreConf (snd p))) (take 3 ranked)
             \<and> map fst sgs = take (length sgs) [''AI Rank #1'', ''AI Rank #2'', ''AI Rank #3'']))"
proof (cases "is_initialized eng")
  case False
  have "window_scores_of eng s content available_windows = []"
    using False by (rule window_scores_of_uninitialized)
  moreover have "fst (llm_get_suggestions eng s content current_window available_windows) = None"
    using False by (simp add: llm_get_suggestions_def)
  ultimately show ?thesis
    by simp
next
  case True
  define scored where "scored = window_scores_of eng s content available_windows"
  have eq: "fst (llm_get_suggestions eng s content current_window available_windows)
              = rank_window_scores scored"
    unfolding scored_def using True assms by (rule llm_get_suggestions_initialized)
  have a: "rank_window_scores scored = None" if "length scored < 2"
    using that by (simp add: rank_window_scores_def)
  have b: "\<exists>sgs ranked. rank_window_scores scored = Some sgs
             \<and> sorted_wrt (\<lambda>a b. snd b \<le> snd a) ranked
             \<and> (\<forall>k. filter (\<lambda>p. snd p = k) ranked = filter (\<lambda>p. snd p = k) scored)
             \<and> length sgs = min 3 (length ranked)
             \<and> map (\<lambda>sg. (suggestion_window sg, snd (snd sg))) sgs
                 = map (\<lambda>p. (fst p, ScoreConf (snd p))) (take 3 ranked)
             \<and> map fst sgs = take (length sgs) [''AI Rank #1'', ''AI Rank #2'', ''AI Rank #3'']"
    if "2 \<le> length scored"
  proof -
    define ranked where "ranked = sort_by_score_desc scored"
    have srt: "sorted_wrt (\<lambda>a b. snd b \<le> snd a) ranked"
      unfolding ranked_def using sorted_sort_by_score_desc [of scored]
      by (simp add: sorted_wrt_map)
    have stb: "\<forall>k. filter (\<lambda>p. snd p = k) ranked = filter (\<lambda>p. snd p = k) scored"
      unfolding ranked_def by (simp add: stable_sort_by_score_desc)
    have len: "length ranked = length scored"
      unfolding ranked_def by (rule length_sort_by_score_desc)
    from rank_window_scores_Some [OF that] obtain sgs where
      s1: "rank_window_scores scored = Some sgs"
      and s2: "length sgs = min 3 (length scored)"
      and s3: "map (\<lambda>sg. (suggestion_window sg, snd (snd sg))) sgs
         = map (\<lambda>p. (fst p, ScoreConf (snd p))) (take 3 (sort_by_score_desc scored))"
      and s4: "map fst sgs = take (length sgs) [''AI Rank #1'', ''AI Rank #2'', ''AI Rank #3'']"
      by (elim exE conjE)
    have s2': "length sgs = min 3 (length ranked)"
      using s2 len by simp
    have s3': "map (\<lambda>sg. (suggestion_window sg, snd (snd sg))) sgs
         = map (\<lambda>p. (fst p, ScoreConf (snd p))) (take 3 ranked)"
      using s3 by (simp only: ranked_def)
    show ?thesis
      using s1 srt stb s2' s3' s4 by (intro exI [of _ sgs] exI [of _ ranked] conjI)
  qed
  show ?thesis
    unfolding eq scored_def [symmetric] using a b by (intro conjI impI)
qed

theorem llm_suggestions_decision_witness:
  "[chrome_window, notepad_window] \<noteq> []
   \<and> length (window_scores_of raising_engine () ''hello'' [chrome_window, notepad_window]) < 2
   \<and> fst (llm_get_suggestions raising_engine () ''hello'' None [chrome_window, notepad_window]) = None
   \<and> 2 \<le> length (window_scores_of raising_classifier_engine () ''hello''
                    [chrome_window, notepad_window])
   \<and> (\<exists>sgs. fst (llm_get_suggestions raising_classifier_engine () ''hello'' None
                    [chrome_window, notepad_window]) = Some sgs
          \<and> map fst sgs = take (length sgs) [''AI Rank #1'', ''AI Rank #2'', ''AI Rank #3''])"
proof -
  have h: "[chrome_window, notepad_window] \<noteq> []"
    by simp
  have l: "length (window_scores_of raising_engine () ''hello'' [chrome_window, notepad_window]) < 2"
    by code_simp
  have g: "2 \<le> length (window_scores_of raising_classifier_engine () ''hello''
                    [chrome_window, notepad_window])"
    by code_simp
  have n: "fst (llm_get_suggestions raising_engine () ''hello'' None [chrome_window, notepad_window]) = None"
    using llm_suggestions_decision [OF h, of raising_engine "()" "''hello''" None] l by simp
  have d: "2 \<le> length (window_scores_of raising_classifier_engine () ''hello''
                    [chrome_window, notepad_window]) \<longrightarrow>
            (\<exists>sgs ranked.
               fst (llm_get_suggestions raising_classifier_engine () ''hello'' None
                      [chrome_window, notepad_window]) = Some sgs
             \<and> sorted_wrt (\<lambda>a b. snd b \<le> snd a) ranked
             \<and> (\<forall>k. filter (\<lambda>p. snd p = k) ranked
                      = filter (\<lambda>p. snd p = k) (window_scores_of raising_classifier_engine () ''hello''
                    [chrome_window, notepad_window]))
             \<and> length sgs = min 3 (length ranked)
             \<and> map (\<lambda>sg. (suggestion_window sg, snd (snd sg))) sgs
                 = map (\<lambda>p. (fst p, ScoreConf (snd p))) (take 3 ranked)
             \<and> map fst sgs = take (length sgs) [''AI Rank #1'', ''AI Rank #2'', ''AI Rank #3''])"
    using llm_suggestions_decision [OF h, of raising_classifier_engine "()" "''hello''" None]
    by (rule conjunct2)
  from d g obtain sgs where
    "fst (llm_get_suggestions raising_classifier_engine () ''hello'' None
            [chrome_window, notepad_window]) = Some sgs"
    "map fst sgs = take (length sgs) [''AI Rank #1'', ''AI Rank #2'', ''AI Rank #3'']"
    by blast
  then have "\<exists>sgs. fst (llm_get_suggestions raising_classifier_engine () ''hello'' None
                    [chrome_window, notepad_window]) = Some sgs
          \<and> map fst sgs = take (length sgs) [''AI Rank #1'', ''AI Rank #2'', ''AI Rank #3'']"
    by blast
  with h l n g show ?thesis
    by (intro conjI)
qed

section \<open>Evaluations\<close>

text \<open>
  C3, as the code has it. The slash of \<open>4/5\<close> is replaced by a space, both digits are
  extracted and the greater one is taken: the reply \<open>score: 4/5\<close> is scored 5 of 5.
\<close>

theorem score_response_fraction:
  "clean_response ''score: 4/5'' = ''score: 4 5''
   \<and> re_findall match_score (clean_response ''score: 4/5'') = [''4'', ''5'']
   \<and> score_response ''score: 4/5'' = Some 1.0"
  by code_simp

text \<open>C3, as the specification states it, fails: the normalized score of \<open>score: 4/5\<close> is not 0.8.\<close>

theorem score_response_fraction_counterexample:
  "score_response ''score: 4/5'' \<noteq> Some 0.8"
  by code_simp

text \<open>
  C4. A content classified as FILE gets no scored suggestion: the affinity table for file
  contents is stored under the key \<open>FILE_PATH\<close>, which the classifier never returns. The
  command prompt is only suggested as a recent window, while the table under \<open>FILE_PATH\<close>
  would rank it.
\<close>

theorem file_content_not_ranked:
  "classify_content ''C:/docs/report.txt'' = Inr (''FILE'', 0.9)
   \<and> map_of content_mappings ''FILE'' = None
   \<and> get_suggestions_for_type ''FILE'' 0.9 ''C:/docs/report.txt'' [cmd_window] = []
   \<and> rule_get_suggestions ''C:/docs/report.txt'' None [cmd_window]
       = Inr (Some [(''Recent -> cmd.exe'', cmd_window, RecentConf)])
   \<and> get_suggestions_for_type ''FILE_PATH'' 0.9 ''C:/docs/report.txt'' [cmd_window]
       = [(''FILE_PATH -> cmd.exe'', cmd_window, PriorityConf ''Medium'' 0.9)]"
  by code_simp

text \<open>
  C5. A Windows path with single backslashes is one token with a path separator that no
  earlier detector matches, and it is not classified as FILE: the detector looks for two
  backslashes in a row.
\<close>

theorem backslash_path_not_file:
  "contains windows_path [backslash]
   \<and> length (py_split windows_path) = 1
   \<and> \<not> list_ex py_isspace windows_path
   \<and> endswith windows_path ''.txt''
   \<and> classify_content windows_path = Inr (''TEXT'', 0.9)"
  by code_simp

section \<open>A failing classification query\<close>

lemma query_llm_Raised:
  "run_inference eng s p m t = (Raised, s1) \<Longrightarrow>
     query_llm eng s p m t = (None, if is_initialized eng then s1 else s)"
  by (simp add: query_llm_def)

text \<open>
  C6, as the code has it. When the backend raises on the classification query, the exception
  is caught: the category of the rule classifier is taken and the windows are scored with it.
\<close>

theorem classification_failure_falls_back:
  assumes "is_initialized eng" and "available_windows \<noteq> []"
    and "classify_content content = Inr (rule_type, rule_confidence)"
    and "rule_confidence < 0.8"
    and "run_inference eng s (classify_prompt content) 32 0.1 = (Raised, s1)"
  shows "llm_classify_content eng s content = (Inr rule_type, s1)
       \<and> llm_get_suggestions eng s content current_window available_windows
           = (rank_window_scores
                (fst (score_windows eng s1 content rule_type (take 5 available_windows))),
              snd (score_windows eng s1 content rule_type (take 5 available_windows)))"
proof -
  have q: "query_llm eng s (classify_prompt content) 32 0.1 = (None, s1)"
    using query_llm_Raised [OF assms(5)] assms(1) by simp
  have nc: "\<not> 0.8 \<le> rule_confidence"
    using assms(4) by simp
  have cl: "llm_classify_content eng s content = (Inr rule_type, s1)"
    unfolding llm_classify_content_def assms(3)
    by (simp only: sum.case prod.case nc if_False q option.case)
  obtain cat conf where "classify_content content = Inr (cat, conf)" "cat \<in> set categories"
    by (rule classify_content_Inr)
  then have ne: "rule_type \<noteq> []"
    using assms(3) categories_nonempty [of cat] by simp
  have "llm_get_suggestions eng s content current_window available_windows
           = (case score_windows eng s1 content rule_type (take 5 available_windows) of
                (window_scores, s2) \<Rightarrow> (rank_window_scores window_scores, s2))"
    unfolding llm_get_suggestions_def cl
    using assms(1,2) ne by (simp only: simp_thms if_False prod.case sum.case)
  then show ?thesis
    using cl by (simp only: case_prod_beta simp_thms)
qed

theorem classification_failure_falls_back_witness:
  "is_initialized raising_classifier_engine \<and> [chrome_window, notepad_window] \<noteq> []
   \<and> classify_content ''hello'' = Inr (''TEXT'', 0.6) \<and> (0.6 :: rat) < 0.8
   \<and> run_inference raising_classifier_engine () (classify_prompt ''hello'') 32 0.1 = (Raised, ())
   \<and> llm_classify_content raising_classifier_engine () ''hello'' = (Inr ''TEXT'', ())
   \<and> llm_get_suggestions raising_classifier_engine () ''hello'' None [chrome_window, notepad_window]
       = (rank_window_scores
            (fst (score_windows raising_classifier_engine () ''hello'' ''TEXT''
                    (take 5 [chrome_window, notepad_window]))),
          snd (score_windows raising_classifier_engine () ''hello'' ''TEXT''
                    (take 5 [chrome_window, notepad_window])))"
proof -
  have h1: "is_initialized raising_classifier_engine"
    by (simp add: raising_classifier_engine_def)
  have h2: "[chrome_window, notepad_window] \<noteq> []"
    by simp
  have h3: "classify_content ''hello'' = Inr (''TEXT'', 0.6)"
    by code_simp
  have h4: "(0.6 :: rat) < 0.8"
    by simp
  have h5: "run_inference raising_classifier_engine () (classify_prompt ''hello'') 32 0.1 = (Raised, ())"
    by code_simp
  show ?thesis
    using h1 h2 h3 h4 h5 classification_failure_falls_back [OF h1 h2 h3 h4 h5, of None]
    by (intro conjI) (elim conjE, assumption)+
qed

text \<open>
  C6, as the specification states it, fails: the classification query raises, and the model path still
  scores the windows and returns a ranking.
\<close>

theorem classification_failure_counterexample:
  "fst (run_inference raising_classifier_engine () (classify_prompt ''hello'') 32 0.1) = Raised
   \<and> fst (llm_get_suggestions raising_classifier_engine () ''hello'' None
            [chrome_window, notepad_window])
       = Some [(''AI Rank #1'', chrome_window, ScoreConf 1.0),
               (''AI Rank #2'', notepad_window, ScoreConf 1.0)]"
  by code_simp

section \<open>The controller on empty content\<close>

text \<open>
  C9. On a content that is empty after \<open>strip\<close> (empty, or whitespace only, the no-break
  space and the next-line character included), the controller returns the empty list at once: no status is reported, so neither engine is tried, and the backend is left in its
  state.
\<close>

theorem empty_content_no_suggestions:
  assumes "py_strip content = []"
  shows "get_suggestions_for_content llm_engine s available_windows current_window content
           = Inr ([], [], s)"
  using assms by (simp add: get_suggestions_for_content_def)

theorem empty_content_no_suggestions_witness:
  "py_strip [CHR '' '', tab, CHR 0xA0, newline, CHR 0x85] = []
   \<and> get_suggestions_for_content (Some raising_classifier_engine) () [chrome_window, notepad_window]
        None [CHR '' '', tab, CHR 0xA0, newline, CHR 0x85] = Inr ([], [], ())"
proof -
  have h: "py_strip [CHR '' '', tab, CHR 0xA0, newline, CHR 0x85] = []"
    by code_simp
  show ?thesis
    using h empty_content_no_suggestions [OF h] by simp
qed

section \<open>What the file detector does\<close>

text \<open>No window is ranked for the category FILE, whatever the content and the windows.\<close>

lemma file_type_has_no_table:
  "get_suggestions_for_type ''FILE'' confidence content windows = []"
proof -
  have "map_of content_mappings ''FILE'' = None"
    by code_simp
  then show ?thesis
    by (simp add: get_suggestions_for_type_def)
qed

text \<open>
  With a forward slash or with two backslashes in a row, a single token that no earlier
  detector matches is classified as FILE, with confidence 0.9 or 0.7.
\<close>

lemma classify_file_by_path:
  assumes "\<not> list_ex (startswith (py_strip (py_lower content))) url_indicators"
    and "\<not> (contains content ''.'' \<and> \<not> contains (py_strip content) '' '' \<and>
              list_ex (endswith (py_strip (py_lower content))) domain_tlds \<and>
              length (split_on CHR ''.'' content) \<ge> 2)"
    and "email_address content = Inr None"
    and "\<not> (count_in email_patterns (py_replace [newline] '' '' (py_strip (py_lower content))) \<ge> 2 \<or>
             (count_in email_patterns (py_replace [newline] '' '' (py_strip (py_lower content))) \<ge> 1 \<and>
              length (split_on newline content) > 2))"
    and "contains content [backslash, backslash] \<or> contains content ''/''"
    and "length (py_split content) = 1"
  shows "classify_content content =
           Inr (''FILE'', if list_ex (endswith (py_strip (py_lower content))) file_extensions
                          then 0.9 else 0.7)"
  unfolding classify_content_def Let_def assms(3)
  using assms(1,2,4,5,6)
  by (simp only: if_False if_True sum.case option.case simp_thms)

end
